theory Spec2Isabelle
  imports Main "HOL-Library.Sublist"
begin

section \<open>Strings and numbers of the host language\<close>

text \<open>
  A string is a list of characters. The strings the code works on are addresses
  (\<open>0x\<close> and forty hexadecimal digits), so they are ASCII, and a character is
  one code unit. \<open>===\<close> on two strings is equality of the lists. \<open>toLowerCase\<close>
  maps \<open>A\<close> .. \<open>Z\<close> to \<open>a\<close> .. \<open>z\<close> and leaves every other ASCII character as it
  is; \<open><\<close> on two strings compares them code unit by code unit, the shorter one
  first when it is a prefix of the other.
\<close>

definition toLowerCase_char :: "char \<Rightarrow> char" where
  "toLowerCase_char c =
     (let n = (of_char c :: nat)
      in if 65 \<le> n \<and> n \<le> 90 then char_of (n + 32) else c)"

definition toLowerCase :: "string \<Rightarrow> string" where
  "toLowerCase s = map toLowerCase_char s"

fun string_less :: "string \<Rightarrow> string \<Rightarrow> bool" where
  "string_less [] [] = False"
| "string_less [] (y # ys) = True"
| "string_less (x # xs) [] = False"
| "string_less (x # xs) (y # ys) =
     (if (of_char x :: nat) < of_char y then True
      else if (of_char y :: nat) < of_char x then False
      else string_less xs ys)"

text \<open>
  A \<open>number\<close> that holds an integer is an \<open>int\<close>; a template literal prints it in
  decimal, with a minus sign when it is negative.
\<close>

definition digit_char :: "nat \<Rightarrow> char" where
  "digit_char d = char_of (48 + d)"

fun digits :: "nat \<Rightarrow> string" where
  "digits n = (if n < 10 then [digit_char n] else digits (n div 10) @ [digit_char (n mod 10)])"

definition numberToString :: "int \<Rightarrow> string" where
  "numberToString i = (if i < 0 then CHR ''-'' # digits (nat (- i)) else digits (nat i))"


section \<open>Errors\<close>

text \<open>
  \<open>invariant(cond, message)\<close> of tiny-invariant throws when \<open>cond\<close> is false;
  \<open>throw new Error(text)\<close> throws with a text of the code's own. An exception is
  the \<open>Inl\<close> branch of a result.
\<close>

datatype error =
    InvariantFailed string
  | Error string
  | DecimalsOutOfRange int

definition invariant :: "bool \<Rightarrow> string \<Rightarrow> error + unit" where
  "invariant cond message = (if cond then Inr () else Inl (InvariantFailed message))"

definition and_then :: "error + 'a \<Rightarrow> ('a \<Rightarrow> error + 'b) \<Rightarrow> error + 'b" where
  "and_then r f = (case r of Inl e \<Rightarrow> Inl e | Inr v \<Rightarrow> f v)"


section \<open>Currencies and tokens (src/entities/token.ts)\<close>

text \<open>The members of the enum \<open>ChainId\<close> that the two source files name.\<close>

datatype ChainId = MATIC | MATICTESTNET | BSC

record Currency =
  decimals :: int
  symbol :: "string option"
  name :: "string option"

record Token = Currency +
  chainId :: ChainId
  address :: string

text \<open>
  Modelled from the spec: the base class \<open>Currency\<close> is imported from
  \<open>./currency\<close>, which is not among the source files. The spec gives an asset
  the fields decimals (0 to 255), symbol and name (both optional); the
  constructor stores them and refuses decimals outside that range.
\<close>

definition Currency_new :: "int \<Rightarrow> string option \<Rightarrow> string option \<Rightarrow> error + Currency" where
  "Currency_new d s n =
     (if 0 \<le> d \<and> d \<le> 255 then Inr \<lparr>decimals = d, symbol = s, name = n\<rparr>
      else Inl (DecimalsOutOfRange d))"

text \<open>
  The constructor of \<open>Token\<close>: \<open>super(decimals, symbol, name)\<close>, then the two
  fields. \<open>validateAndParseAddress\<close> is imported from \<open>../utils\<close>, which is not
  among the source files, so it is the parameter \<open>vp\<close>: it throws or returns
  the address to store.
\<close>

definition Token_new ::
  "(string \<Rightarrow> error + string) \<Rightarrow> ChainId \<Rightarrow> string \<Rightarrow> int \<Rightarrow> string option \<Rightarrow> string option
     \<Rightarrow> error + Token" where
  "Token_new vp chainId' address' decimals' symbol' name' =
     and_then (Currency_new decimals' symbol' name') (\<lambda>super.
     and_then (vp address') (\<lambda>parsed.
       Inr \<lparr>decimals = decimals super, symbol = symbol super, name = name super,
            chainId = chainId', address = parsed\<rparr>))"

text \<open>
  Modelled from the spec: what \<open>validateAndParseAddress\<close> returns. The spec
  makes the address of a token its checksummed identifier, so an identifier has
  one spelling: two addresses the function returns that agree up to the case of
  their letters are the same string.
\<close>

definition checksummed :: "(string \<Rightarrow> error + string) \<Rightarrow> bool" where
  "checksummed vp \<longleftrightarrow>
     (\<forall>x y u v. vp x = Inr u \<and> vp y = Inr v \<and> toLowerCase u = toLowerCase v \<longrightarrow> u = v)"

subsection \<open>Objects and references\<close>

text \<open>
  \<open>===\<close> on two objects compares references, so the functions that use it take
  references into a store of objects. An object is an instance of \<open>Token\<close> or a
  \<open>Currency\<close> that is not one (a native asset). All fields are read-only;
  reading a field that an object does not have gives \<open>undefined\<close>, here \<open>None\<close>.
\<close>

type_synonym ref = nat

datatype object = CurrencyObj Currency | TokenObj Token

type_synonym store = "ref \<Rightarrow> object"

fun instanceof_Token :: "object \<Rightarrow> bool" where
  "instanceof_Token (TokenObj t) = True"
| "instanceof_Token (CurrencyObj c) = False"

fun chainId_of :: "object \<Rightarrow> ChainId option" where
  "chainId_of (TokenObj t) = Some (chainId t)"
| "chainId_of (CurrencyObj c) = None"

fun address_of :: "object \<Rightarrow> string option" where
  "address_of (TokenObj t) = Some (address t)"
| "address_of (CurrencyObj c) = None"

text \<open>\<open>Token.equals\<close>: reference equality first, then the two fields.\<close>

definition equals :: "store \<Rightarrow> ref \<Rightarrow> ref \<Rightarrow> bool" where
  "equals st this other =
     (if this = other then True
      else chainId_of (st this) = chainId_of (st other)
         \<and> address_of (st this) = address_of (st other))"

text \<open>
  \<open>Token.sortsBefore\<close> reads fields only, so it is given the two tokens. The
  two invariants are checked in the order of the source.
\<close>

definition sortsBefore :: "Token \<Rightarrow> Token \<Rightarrow> error + bool" where
  "sortsBefore this other =
     and_then (invariant (chainId this = chainId other) ''CHAIN_IDS'') (\<lambda>_.
     and_then (invariant (address this \<noteq> address other) ''ADDRESSES'') (\<lambda>_.
       Inr (string_less (toLowerCase (address this)) (toLowerCase (address other)))))"

definition currencyEquals :: "store \<Rightarrow> ref \<Rightarrow> ref \<Rightarrow> bool" where
  "currencyEquals st currencyA currencyB =
     (if instanceof_Token (st currencyA) \<and> instanceof_Token (st currencyB)
        then equals st currencyA currencyB
      else if instanceof_Token (st currencyA) then False
      else if instanceof_Token (st currencyB) then False
      else currencyA = currencyB)"

subsection \<open>The exported token constants\<close>

text \<open>
  Each table is an object literal with computed keys, filled in the order of
  the source (a later key would replace an equal earlier one). A constructor
  that throws makes the whole module fail to load.
\<close>

definition WMATIC :: "(string \<Rightarrow> error + string) \<Rightarrow> error + (ChainId \<rightharpoonup> Token)" where
  "WMATIC vp =
     and_then (Token_new vp MATIC ''0x0d500b1d8e8ef31e21c99d1db9a6444d3adf1270'' 18
                 (Some ''WMATIC'') (Some ''Wrapped MATIC'')) (\<lambda>t1.
     and_then (Token_new vp MATICTESTNET ''0x9c3C9283D3e44854697Cd22D3Faa240Cfb032889'' 18
                 (Some ''WMATIC'') (Some ''Wrapped MATIC'')) (\<lambda>t2.
       Inr [MATIC \<mapsto> t1, MATICTESTNET \<mapsto> t2]))"

definition WETH :: "(string \<Rightarrow> error + string) \<Rightarrow> error + (ChainId \<rightharpoonup> Token)" where
  "WETH vp =
     and_then (Token_new vp MATIC ''0x7ceB23fD6bC0adD59E62ac25578270cFf1b9f619'' 18
                 (Some ''WETH'') (Some ''Wrapped ETH'')) (\<lambda>t1.
       Inr [MATIC \<mapsto> t1])"

definition BNB :: "(string \<Rightarrow> error + string) \<Rightarrow> error + (ChainId \<rightharpoonup> Token)" where
  "BNB vp =
     and_then (Token_new vp BSC ''0xbb4CdB9CBd36B01bD1cBaEBF2De08d9173bc095c'' 18
                 (Some ''WBNB'') (Some ''Wrapped BNB'')) (\<lambda>t1.
       Inr [BSC \<mapsto> t1])"

definition HOPE :: "(string \<Rightarrow> error + string) \<Rightarrow> error + (ChainId \<rightharpoonup> Token)" where
  "HOPE vp =
     and_then (Token_new vp MATIC ''0xd78c475133731cd54dadcb430f7aae4f03c1e660'' 18
                 (Some ''HOPE'') (Some ''Firebird HOPE'')) (\<lambda>t1.
     and_then (Token_new vp MATIC ''0xd78C475133731CD54daDCb430F7aAE4F03C1E660'' 18
                 (Some ''HOPE-P'') (Some ''Firebird HOPE-P'')) (\<lambda>t2.
       Inr [MATIC \<mapsto> t1, BSC \<mapsto> t2]))"


section \<open>The fetcher (class \<open>Fetcher\<close>)\<close>

text \<open>
  The provider answers a contract call at an address or makes it fail:
  \<open>decimals()\<close> of the ERC20 contract, and the first two components of
  \<open>getReserves()\<close> of the pair contract.
\<close>

record provider =
  decimals_reply :: "string \<Rightarrow> error + int"
  getReserves_reply :: "string \<Rightarrow> error + int \<times> int"

text \<open>
  The classes \<open>Pair\<close> and \<open>TokenAmount\<close> and the function
  \<open>validateAndParseAddress\<close> are imported from files that are not among the
  sources, and \<open>getDefaultProvider(getNetwork(chainId))\<close> from a library: what
  the fetcher calls of them are the fields of \<open>externals\<close>, each throwing or
  returning a value.
\<close>

record ('amount, 'pair) externals =
  validateAndParseAddress :: "string \<Rightarrow> error + string"
  getDefaultProvider :: "ChainId \<Rightarrow> error + provider"
  Pair_getAddress :: "Token \<Rightarrow> Token \<Rightarrow> int \<Rightarrow> int \<Rightarrow> error + string"
  TokenAmount_new :: "Token \<Rightarrow> int \<Rightarrow> error + 'amount"
  Pair_new :: "'amount \<Rightarrow> 'amount \<Rightarrow> error + 'pair"

text \<open>
  The parameter \<open>provider = getDefaultProvider(getNetwork(chainId))\<close>: an
  argument left out is \<open>None\<close>, and its default is built when the call starts.
\<close>

definition provider_or_default ::
  "('amount, 'pair) externals \<Rightarrow> ChainId \<Rightarrow> provider option \<Rightarrow> error + provider" where
  "provider_or_default ext chainId' provider' =
     (case provider' of None \<Rightarrow> getDefaultProvider ext chainId' | Some p \<Rightarrow> Inr p)"

datatype call = Call_decimals string | Call_getReserves string

text \<open>
  The state the fetcher works on: the module variable \<open>TOKEN_DECIMALS_CACHE\<close>
  and the contract calls attempted so far, oldest first.
\<close>

record world =
  TOKEN_DECIMALS_CACHE :: "ChainId \<rightharpoonup> (string \<rightharpoonup> int)"
  calls :: "call list"

definition TOKEN_DECIMALS_CACHE_initial :: "ChainId \<rightharpoonup> (string \<rightharpoonup> int)" where
  "TOKEN_DECIMALS_CACHE_initial =
     [MATIC \<mapsto> [''0xE0B7927c4aF23765Cb51314A0E0521A9645F0E2A'' \<mapsto> 9]]"

text \<open>
  \<open>TOKEN_DECIMALS_CACHE?.[chainId]?.[address]\<close>, which the source accepts when
  its type is \<open>number\<close>: the key is the address as the caller wrote it.
\<close>

definition cached_decimals :: "(ChainId \<rightharpoonup> (string \<rightharpoonup> int)) \<Rightarrow> ChainId \<Rightarrow> string \<Rightarrow> int option" where
  "cached_decimals cache chainId' address' =
     (case cache chainId' of None \<Rightarrow> None | Some of_chain \<Rightarrow> of_chain address')"

definition fetchTokenData ::
  "('amount, 'pair) externals \<Rightarrow> provider option \<Rightarrow> world \<Rightarrow> ChainId \<Rightarrow> string
     \<Rightarrow> string option \<Rightarrow> string option \<Rightarrow> (error + Token) \<times> world" where
  "fetchTokenData ext provider' w chainId' address' symbol' name' =
     (case provider_or_default ext chainId' provider' of
        Inl e \<Rightarrow> (Inl e, w)
      | Inr prov \<Rightarrow>
        (case cached_decimals (TOKEN_DECIMALS_CACHE w) chainId' address' of
           Some parsedDecimals \<Rightarrow>
             (Token_new (validateAndParseAddress ext) chainId' address' parsedDecimals symbol' name',
              w)
         | None \<Rightarrow>
             (let w1 = w\<lparr>calls := calls w @ [Call_decimals address']\<rparr>
              in case decimals_reply prov address' of
                   Inl e \<Rightarrow> (Inl e, w1)
                 | Inr decimals' \<Rightarrow>
                     (let of_chain = (case TOKEN_DECIMALS_CACHE w1 chainId' of
                                        None \<Rightarrow> Map.empty | Some m \<Rightarrow> m);
                          w2 = w1\<lparr>TOKEN_DECIMALS_CACHE :=
                                     (TOKEN_DECIMALS_CACHE w1)
                                       (chainId' \<mapsto> of_chain(address' \<mapsto> decimals'))\<rparr>
                      in (Token_new (validateAndParseAddress ext) chainId' address' decimals'
                            symbol' name',
                          w2)))))"

text \<open>The text of the error that replaces any failure of the reserve lookup.\<close>

definition reserves_message :: "string \<Rightarrow> int \<Rightarrow> int \<Rightarrow> string" where
  "reserves_message address' ratioA swapFee =
     ''\<newline>        Could not get reserves. Please verify that this: '' @ address'
     @ '' is the pool you are looking for. \<newline>        Also check swapFee and ratioA parameters (ratio: ''
     @ numberToString ratioA @ '', swapFee: '' @ numberToString swapFee @ '')\<newline>      ''"

text \<open>
  \<open>fetchPairData\<close>; the defaults of \<open>ratioA\<close> and \<open>swapFee\<close> are 50 and 20.
  Everything inside \<open>try\<close> that fails is caught and replaced by the error
  above.
\<close>

definition fetchPairData ::
  "('amount, 'pair) externals \<Rightarrow> provider option \<Rightarrow> world \<Rightarrow> Token \<Rightarrow> Token
     \<Rightarrow> int option \<Rightarrow> int option \<Rightarrow> (error + 'pair) \<times> world" where
  "fetchPairData ext provider' w tokenA tokenB ratioA' swapFee' =
     (case provider_or_default ext (chainId tokenA) provider' of
        Inl e \<Rightarrow> (Inl e, w)
      | Inr prov \<Rightarrow>
        (let ratioA = (case ratioA' of None \<Rightarrow> 50 | Some r \<Rightarrow> r);
             swapFee = (case swapFee' of None \<Rightarrow> 20 | Some f \<Rightarrow> f)
         in case invariant (chainId tokenA = chainId tokenB) ''CHAIN_ID'' of
              Inl e \<Rightarrow> (Inl e, w)
            | Inr _ \<Rightarrow>
              (case Pair_getAddress ext tokenA tokenB ratioA swapFee of
                 Inl e \<Rightarrow> (Inl e, w)
               | Inr address' \<Rightarrow>
                 (let w1 = w\<lparr>calls := calls w @ [Call_getReserves address']\<rparr>
                  in case getReserves_reply prov address' of
                       Inl e \<Rightarrow> (Inl (Error (reserves_message address' ratioA swapFee)), w1)
                     | Inr (reserves0, reserves1) \<Rightarrow>
                         (and_then (sortsBefore tokenA tokenB) (\<lambda>first.
                            let balances = (if first then [reserves0, reserves1]
                                            else [reserves1, reserves0])
                            in and_then (TokenAmount_new ext tokenA (balances ! 0)) (\<lambda>amountA.
                               and_then (TokenAmount_new ext tokenB (balances ! 1)) (\<lambda>amountB.
                                 Pair_new ext amountA amountB))),
                          w1)))))"


section \<open>Example values\<close>

text \<open>
  A validator to run the code on: it accepts \<open>0x\<close> followed by forty
  hexadecimal digits and returns the lower-case spelling as the one spelling of
  the identifier (the mixed-case checksum spelling takes a hash function).
\<close>

definition is_hex_char :: "char \<Rightarrow> bool" where
  "is_hex_char c =
     (let n = (of_char c :: nat)
      in (48 \<le> n \<and> n \<le> 57) \<or> (65 \<le> n \<and> n \<le> 70) \<or> (97 \<le> n \<and> n \<le> 102))"

definition lowercase_validate :: "string \<Rightarrow> error + string" where
  "lowercase_validate a =
     (if length a = 42 \<and> take 2 a = ''0x'' \<and> list_all is_hex_char (drop 2 a)
      then Inr (toLowerCase a)
      else Inl (InvariantFailed (a @ '' is not a valid address.'')))"

definition example_HOPE :: Token where
  "example_HOPE =
     \<lparr>decimals = 18, symbol = Some ''HOPE'', name = Some ''Firebird HOPE'',
      chainId = MATIC, address = ''0xd78c475133731cd54dadcb430f7aae4f03c1e660''\<rparr>"

definition example_HOPE_P :: Token where
  "example_HOPE_P =
     \<lparr>decimals = 18, symbol = Some ''HOPE-P'', name = Some ''Firebird HOPE-P'',
      chainId = MATIC, address = ''0xd78c475133731cd54dadcb430f7aae4f03c1e660''\<rparr>"

definition example_WBNB :: Token where
  "example_WBNB =
     \<lparr>decimals = 18, symbol = Some ''WBNB'', name = Some ''Wrapped BNB'',
      chainId = BSC, address = ''0xbb4cdb9cbd36b01bd1cbaebf2de08d9173bc095c''\<rparr>"

definition example_WMATIC_testnet :: Token where
  "example_WMATIC_testnet =
     \<lparr>decimals = 18, symbol = Some ''WMATIC'', name = Some ''Wrapped MATIC'',
      chainId = MATICTESTNET, address = ''0x9c3c9283d3e44854697cd22d3faa240cfb032889''\<rparr>"

definition example_WMATIC :: Token where
  "example_WMATIC =
     \<lparr>decimals = 18, symbol = Some ''WMATIC'', name = Some ''Wrapped MATIC'',
      chainId = MATIC, address = ''0x0d500b1d8e8ef31e21c99d1db9a6444d3adf1270''\<rparr>"

definition example_WETH :: Token where
  "example_WETH =
     \<lparr>decimals = 18, symbol = Some ''WETH'', name = Some ''Wrapped ETH'',
      chainId = MATIC, address = ''0x7ceb23fd6bc0add59e62ac25578270cff1b9f619''\<rparr>"


text \<open>A store: three tokens at the references 0, 1 and 2, a native asset at every other.\<close>

definition example_store :: store where
  "example_store r =
     (if r = 0 then TokenObj example_HOPE
      else if r = 1 then TokenObj example_HOPE_P
      else if r = 2 then TokenObj example_WBNB
      else CurrencyObj \<lparr>decimals = 18, symbol = Some ''MATIC'', name = Some ''Matic''\<rparr>)"

text \<open>
  Externals to run the fetcher on: a pool address made of the two addresses in
  sorted order, the weight of the first of them and the fee; amounts and pairs
  as tuples. The provider knows one pool and makes every other lookup fail;
  it is the default provider of the chain \<open>MATIC\<close>, and no other chain has one.
\<close>

definition example_getAddress :: "Token \<Rightarrow> Token \<Rightarrow> int \<Rightarrow> int \<Rightarrow> error + string" where
  "example_getAddress tokenA tokenB ratioA swapFee =
     and_then (sortsBefore tokenA tokenB) (\<lambda>first.
       Inr ((if first then address tokenA @ address tokenB else address tokenB @ address tokenA)
            @ ''/'' @ numberToString (if first then ratioA else 100 - ratioA)
            @ ''/'' @ numberToString swapFee))"

definition example_pool :: string where
  "example_pool =
     ''0x0d500b1d8e8ef31e21c99d1db9a6444d3adf12700x7ceb23fd6bc0add59e62ac25578270cff1b9f619/50/20''"

definition example_provider :: provider where
  "example_provider =
     \<lparr>decimals_reply = (\<lambda>a. Inr 6),
      getReserves_reply =
        (\<lambda>a. if a = example_pool then Inr (1000, 7) else Inl (Error ''call revert exception''))\<rparr>"

definition example_externals :: "(Token \<times> int, (Token \<times> int) \<times> (Token \<times> int)) externals" where
  "example_externals =
     \<lparr>validateAndParseAddress = lowercase_validate,
      getDefaultProvider =
        (\<lambda>c. if c = MATIC then Inr example_provider
             else Inl (Error ''unsupported getDefaultProvider network'')),
      Pair_getAddress = example_getAddress,
      TokenAmount_new = (\<lambda>token amount. Inr (token, amount)),
      Pair_new = (\<lambda>amountA amountB. Inr (amountA, amountB))\<rparr>"

definition example_world :: world where
  "example_world = \<lparr>TOKEN_DECIMALS_CACHE = TOKEN_DECIMALS_CACHE_initial, calls = []\<rparr>"


section \<open>Lemmas on strings and the constructor\<close>

lemma and_then_Inl: "and_then (Inl e) f = Inl e"
  by (simp add: and_then_def)

lemma and_then_Inr: "and_then (Inr v) f = f v"
  by (simp add: and_then_def)

lemma string_less_total: "x \<noteq> y \<Longrightarrow> string_less x y = (\<not> string_less y x)"
  by (induction x y rule: string_less.induct) auto

lemma toLowerCase_char_idem: "toLowerCase_char (toLowerCase_char c) = toLowerCase_char c"
  unfolding toLowerCase_char_def Let_def
  by (auto simp: of_char_of)

lemma toLowerCase_idem: "toLowerCase (toLowerCase s) = toLowerCase s"
  by (simp add: toLowerCase_def toLowerCase_char_idem)

lemma checksummed_lowercase_validate: "checksummed lowercase_validate"
  unfolding checksummed_def lowercase_validate_def
  by (auto simp: toLowerCase_idem split: if_splits)

lemma Token_new_Inr:
  "Token_new vp c a d s n = Inr t \<Longrightarrow>
     vp a = Inr (address t) \<and> chainId t = c \<and> decimals t = d \<and> symbol t = s \<and> name t = n
       \<and> 0 \<le> d \<and> d \<le> 255"
  by (auto simp: Token_new_def Currency_new_def and_then_def split: if_splits sum.splits)

lemma checksummed_addresses:
  assumes "checksummed vp"
    and "Token_new vp ca aa da sa na = Inr ta"
    and "Token_new vp cb ab db sb nb = Inr tb"
  shows "toLowerCase (address ta) = toLowerCase (address tb) \<longleftrightarrow> address ta = address tb"
  using assms Token_new_Inr[of vp ca aa da sa na ta] Token_new_Inr[of vp cb ab db sb nb tb]
  unfolding checksummed_def by metis

lemma and_then_eq_Inr: "and_then r f = Inr y \<longleftrightarrow> (\<exists>v. r = Inr v \<and> f v = Inr y)"
  by (cases r) (simp_all add: and_then_def)

lemma Token_new_chainId: "Token_new vp c a d s n = Inr t \<Longrightarrow> chainId t = c"
  by (simp add: Token_new_Inr)

lemma equals_exact:
  assumes "st a = TokenObj ta" and "st b = TokenObj tb"
  shows "equals st a b \<longleftrightarrow> a = b \<or> (chainId ta = chainId tb \<and> address ta = address tb)"
  using assms by (auto simp: equals_def)

lemma new_HOPE:
  "Token_new lowercase_validate MATIC ''0xd78c475133731cd54dadcb430f7aae4f03c1e660'' 18
     (Some ''HOPE'') (Some ''Firebird HOPE'') = Inr example_HOPE"
  by code_simp

lemma new_HOPE_P:
  "Token_new lowercase_validate MATIC ''0xd78C475133731CD54daDCb430F7aAE4F03C1E660'' 18
     (Some ''HOPE-P'') (Some ''Firebird HOPE-P'') = Inr example_HOPE_P"
  by code_simp

lemma new_WBNB:
  "Token_new lowercase_validate BSC ''0xbb4CdB9CBd36B01bD1cBaEBF2De08d9173bc095c'' 18
     (Some ''WBNB'') (Some ''Wrapped BNB'') = Inr example_WBNB"
  by code_simp

lemma new_WMATIC_testnet:
  "Token_new lowercase_validate MATICTESTNET ''0x9c3C9283D3e44854697Cd22D3Faa240Cfb032889'' 18
     (Some ''WMATIC'') (Some ''Wrapped MATIC'') = Inr example_WMATIC_testnet"
  by code_simp

lemma new_WMATIC:
  "Token_new lowercase_validate MATIC ''0x0d500b1d8e8ef31e21c99d1db9a6444d3adf1270'' 18
     (Some ''WMATIC'') (Some ''Wrapped MATIC'') = Inr example_WMATIC"
  by code_simp

lemma new_WETH:
  "Token_new lowercase_validate MATIC ''0x7ceB23fD6bC0adD59E62ac25578270cFf1b9f619'' 18
     (Some ''WETH'') (Some ''Wrapped ETH'') = Inr example_WETH"
  by code_simp

lemma example_pool_70:
  "Pair_getAddress example_externals example_WETH example_WMATIC 30 20 =
     Inr ''0x0d500b1d8e8ef31e21c99d1db9a6444d3adf12700x7ceb23fd6bc0add59e62ac25578270cff1b9f619/70/20''"
  by code_simp

lemma cached_DGD:
  "cached_decimals (TOKEN_DECIMALS_CACHE example_world) MATIC
     ''0xE0B7927c4aF23765Cb51314A0E0521A9645F0E2A'' = Some 9"
  by (simp add: cached_decimals_def example_world_def TOKEN_DECIMALS_CACHE_initial_def)

lemma validate_DGD:
  "validateAndParseAddress example_externals ''0xE0B7927c4aF23765Cb51314A0E0521A9645F0E2A''
     = Inr ''0xe0b7927c4af23765cb51314a0e0521a9645f0e2a''"
  by code_simp

lemma example_validate: "validateAndParseAddress example_externals = lowercase_validate"
  by (simp add: example_externals_def)

lemma example_default:
  "provider_or_default example_externals (chainId example_WMATIC) None = Inr example_provider"
  by (simp add: provider_or_default_def example_externals_def example_WMATIC_def)

lemma example_pool_50:
  "Pair_getAddress example_externals example_WMATIC example_WETH 50 20 = Inr example_pool"
  "Pair_getAddress example_externals example_WETH example_WMATIC 50 20 = Inr example_pool"
  by code_simp+

lemma example_first:
  "string_less (toLowerCase (address example_WMATIC)) (toLowerCase (address example_WETH))"
  by code_simp

lemma WMATIC_keys:
  assumes "WMATIC vp = Inr m" and "m k = Some t"
  shows "chainId t = k"
proof -
  from assms(1) obtain t1 t2
    where "chainId t1 = MATIC" "chainId t2 = MATICTESTNET" "m = [MATIC \<mapsto> t1, MATICTESTNET \<mapsto> t2]"
    unfolding WMATIC_def and_then_eq_Inr by (blast dest: Token_new_chainId)
  with assms(2) show ?thesis by (auto split: if_splits)
qed

lemma WETH_keys:
  assumes "WETH vp = Inr m" and "m k = Some t"
  shows "chainId t = k"
proof -
  from assms(1) obtain t1 where "chainId t1 = MATIC" "m = [MATIC \<mapsto> t1]"
    unfolding WETH_def and_then_eq_Inr by (blast dest: Token_new_chainId)
  with assms(2) show ?thesis by (auto split: if_splits)
qed

lemma BNB_keys:
  assumes "BNB vp = Inr m" and "m k = Some t"
  shows "chainId t = k"
proof -
  from assms(1) obtain t1 where "chainId t1 = BSC" "m = [BSC \<mapsto> t1]"
    unfolding BNB_def and_then_eq_Inr by (blast dest: Token_new_chainId)
  with assms(2) show ?thesis by (auto split: if_splits)
qed

lemma HOPE_BSC:
  assumes "HOPE vp = Inr m"
  shows "\<exists>t. m BSC = Some t \<and> chainId t = MATIC"
proof -
  from assms(1) obtain t1 t2
    where "chainId t2 = MATIC" "m = [MATIC \<mapsto> t1, BSC \<mapsto> t2]"
    unfolding HOPE_def and_then_eq_Inr by (blast dest: Token_new_chainId)
  then show ?thesis by simp
qed


section \<open>Equality and order of tokens\<close>

text \<open>
  Claim C1. For two tokens made by the constructor, \<open>a.equals(b)\<close> is true
  exactly when their chain ids are equal and their addresses are equal up to
  the case of the letters. The code compares the stored addresses with \<open>===\<close>;
  the constructor stores what \<open>validateAndParseAddress\<close> returns, the
  checksummed spelling, so both comparisons agree.
\<close>

theorem equals_iff_chainId_and_address:
  assumes "checksummed vp"
    and "Token_new vp ca aa da sa na = Inr ta"
    and "Token_new vp cb ab db sb nb = Inr tb"
    and "st a = TokenObj ta"
    and "st b = TokenObj tb"
  shows "equals st a b \<longleftrightarrow>
           chainId ta = chainId tb \<and> toLowerCase (address ta) = toLowerCase (address tb)"
proof (cases "a = b")
  case True
  with assms(4,5) have "ta = tb" by simp
  with True show ?thesis by (simp add: equals_def)
next
  case False
  then show ?thesis
    using checksummed_addresses [OF assms(1,2,3)] assms(4,5) by (simp add: equals_def)
qed

theorem equals_iff_chainId_and_address_witness:
  "checksummed lowercase_validate
   \<and> Token_new lowercase_validate MATIC ''0xd78c475133731cd54dadcb430f7aae4f03c1e660'' 18
       (Some ''HOPE'') (Some ''Firebird HOPE'') = Inr example_HOPE
   \<and> Token_new lowercase_validate MATIC ''0xd78C475133731CD54daDCb430F7aAE4F03C1E660'' 18
       (Some ''HOPE-P'') (Some ''Firebird HOPE-P'') = Inr example_HOPE_P
   \<and> example_store 0 = TokenObj example_HOPE
   \<and> example_store 1 = TokenObj example_HOPE_P
   \<and> equals example_store 0 1"
proof -
  note c = checksummed_lowercase_validate
  have s0: "example_store 0 = TokenObj example_HOPE"
    and s1: "example_store 1 = TokenObj example_HOPE_P"
    by (simp_all add: example_store_def)
  have "equals example_store 0 1"
    using equals_iff_chainId_and_address [OF c new_HOPE new_HOPE_P s0 s1]
    by (simp add: example_HOPE_def example_HOPE_P_def)
  with c new_HOPE new_HOPE_P s0 s1 show ?thesis by blast
qed

text \<open>
  Claim C3. For two tokens of one chain made by the constructor whose
  addresses are unequal, \<open>sortsBefore(a, b)\<close> and \<open>sortsBefore(b, a)\<close> both return,
  and the one is the negation of the other.
\<close>

theorem sortsBefore_antisymmetric:
  assumes "checksummed vp"
    and "Token_new vp ca aa da sa na = Inr ta"
    and "Token_new vp cb ab db sb nb = Inr tb"
    and "chainId ta = chainId tb"
    and "address ta \<noteq> address tb"
  shows "\<exists>r. sortsBefore ta tb = Inr r \<and> sortsBefore tb ta = Inr (\<not> r)"
proof -
  from checksummed_addresses [OF assms(1,2,3)] assms(5)
  have "toLowerCase (address ta) \<noteq> toLowerCase (address tb)" by simp
  then have "string_less (toLowerCase (address tb)) (toLowerCase (address ta))
               = (\<not> string_less (toLowerCase (address ta)) (toLowerCase (address tb)))"
    using string_less_total by blast
  with assms(4,5) show ?thesis
    by (simp add: sortsBefore_def invariant_def and_then_def)
qed

theorem sortsBefore_antisymmetric_witness:
  "checksummed lowercase_validate
   \<and> chainId example_WMATIC = chainId example_WETH
   \<and> address example_WMATIC \<noteq> address example_WETH
   \<and> sortsBefore example_WMATIC example_WETH = Inr True
   \<and> sortsBefore example_WETH example_WMATIC = Inr False"
proof -
  note c = checksummed_lowercase_validate
  have ch: "chainId example_WMATIC = chainId example_WETH"
    by (simp add: example_WMATIC_def example_WETH_def)
  have ad: "address example_WMATIC \<noteq> address example_WETH"
    by (simp add: example_WMATIC_def example_WETH_def)
  have fwd: "sortsBefore example_WMATIC example_WETH = Inr True"
    by code_simp
  from sortsBefore_antisymmetric [OF c new_WMATIC new_WETH ch ad] fwd
  have "sortsBefore example_WETH example_WMATIC = Inr False" by auto
  with c ch ad fwd show ?thesis by simp
qed

text \<open>
  Claim C4. \<open>sortsBefore(a, b)\<close> throws when the chain ids differ (invariant
  \<open>CHAIN_IDS\<close>) or when the addresses are equal (invariant \<open>ADDRESSES\<close>); otherwise
  it returns whether the lower-cased address of \<open>a\<close> is less than the
  lower-cased address of \<open>b\<close>.
\<close>

theorem sortsBefore_throws_or_compares:
  "sortsBefore a b =
     (if chainId a \<noteq> chainId b then Inl (InvariantFailed ''CHAIN_IDS'')
      else if address a = address b then Inl (InvariantFailed ''ADDRESSES'')
      else Inr (string_less (toLowerCase (address a)) (toLowerCase (address b))))"
  by (simp add: sortsBefore_def invariant_def and_then_def)

text \<open>
  Claim C8. \<open>currencyEquals(a, b)\<close> is false when exactly one of the two is a
  token; when neither is a token it is true exactly when \<open>a\<close> and \<open>b\<close> are the
  same reference.
\<close>

theorem currencyEquals_native:
  "(instanceof_Token (st a) \<noteq> instanceof_Token (st b) \<longrightarrow> currencyEquals st a b = False)
   \<and> (\<not> instanceof_Token (st a) \<and> \<not> instanceof_Token (st b)
        \<longrightarrow> currencyEquals st a b = (a = b))"
  by (auto simp: currencyEquals_def)

theorem currencyEquals_native_witness:
  "instanceof_Token (example_store 2) \<noteq> instanceof_Token (example_store 3)
   \<and> \<not> currencyEquals example_store 2 3
   \<and> \<not> currencyEquals example_store 3 2
   \<and> \<not> instanceof_Token (example_store 3) \<and> \<not> instanceof_Token (example_store 4)
   \<and> \<not> currencyEquals example_store 3 4
   \<and> currencyEquals example_store 3 3"
  using currencyEquals_native [of example_store 2 3] currencyEquals_native [of example_store 3 2]
    currencyEquals_native [of example_store 3 4] currencyEquals_native [of example_store 3 3]
  by (simp add: example_store_def)

text \<open>
  Claim C9. \<open>currencyEquals\<close> is reflexive and symmetric: \<open>currencyEquals(a, a)\<close>
  is true, and \<open>currencyEquals(a, b)\<close> is \<open>currencyEquals(b, a)\<close>.
\<close>

theorem currencyEquals_refl_sym:
  "currencyEquals st a a \<and> currencyEquals st a b = currencyEquals st b a"
  by (auto simp: currencyEquals_def equals_def)


section \<open>The fetcher\<close>




text \<open>
  Claim C6. When the reserve lookup at the computed pool address fails, for
  whatever reason, \<open>fetchPairData\<close> throws an error whose message contains that
  address, the value of \<open>ratioA\<close> and the value of \<open>swapFee\<close> that were used
  (the defaults when the caller left them out).
\<close>

theorem fetchPairData_lookup_failure:
  assumes "provider_or_default ext (chainId tokenA) provider' = Inr prov"
    and "chainId tokenA = chainId tokenB"
    and "ratio = (case ratioA of None \<Rightarrow> 50 | Some r \<Rightarrow> r)"
    and "fee = (case swapFee of None \<Rightarrow> 20 | Some f \<Rightarrow> f)"
    and "Pair_getAddress ext tokenA tokenB ratio fee = Inr pool"
    and "getReserves_reply prov pool = Inl e"
  shows "\<exists>message.
           fst (fetchPairData ext provider' w tokenA tokenB ratioA swapFee) = Inl (Error message)
           \<and> sublist pool message
           \<and> sublist (numberToString ratio) message
           \<and> sublist (numberToString fee) message"
proof -
  let ?m = "reserves_message pool ratio fee"
  have r: "fst (fetchPairData ext provider' w tokenA tokenB ratioA swapFee) = Inl (Error ?m)"
    using assms by (simp add: fetchPairData_def invariant_def Let_def)
  have p: "sublist pool ?m"
    unfolding reserves_message_def by (rule sublist_appendI)
  have a: "sublist (numberToString ratio) ?m"
    unfolding reserves_message_def
    using sublist_appendI by (metis append.assoc)
  have f: "sublist (numberToString fee) ?m"
    unfolding reserves_message_def
    using sublist_appendI by (metis append.assoc)
  from r p a f show ?thesis by blast
qed

theorem fetchPairData_lookup_failure_witness:
  "provider_or_default example_externals (chainId example_WETH) None = Inr example_provider
   \<and> chainId example_WETH = chainId example_WMATIC
   \<and> Pair_getAddress example_externals example_WETH example_WMATIC 30 20 =
       Inr ''0x0d500b1d8e8ef31e21c99d1db9a6444d3adf12700x7ceb23fd6bc0add59e62ac25578270cff1b9f619/70/20''
   \<and> getReserves_reply example_provider
       ''0x0d500b1d8e8ef31e21c99d1db9a6444d3adf12700x7ceb23fd6bc0add59e62ac25578270cff1b9f619/70/20''
       = Inl (Error ''call revert exception'')
   \<and> (\<exists>message.
         fst (fetchPairData example_externals None example_world example_WETH example_WMATIC
                (Some 30) None) = Inl (Error message)
         \<and> sublist ''0x0d500b1d8e8ef31e21c99d1db9a6444d3adf12700x7ceb23fd6bc0add59e62ac25578270cff1b9f619/70/20'' message
         \<and> sublist (numberToString 30) message
         \<and> sublist (numberToString 20) message)"
proof -
  have pr: "provider_or_default example_externals (chainId example_WETH) None = Inr example_provider"
    using example_default by (simp add: example_WMATIC_def example_WETH_def)
  have ch: "chainId example_WETH = chainId example_WMATIC"
    by (simp add: example_WMATIC_def example_WETH_def)
  have r: "(30::int) = (case Some 30 of None \<Rightarrow> 50 | Some r \<Rightarrow> r)" by simp
  have f: "(20::int) = (case None of None \<Rightarrow> 20 | Some f \<Rightarrow> f)" by simp
  have fail: "getReserves_reply example_provider
       ''0x0d500b1d8e8ef31e21c99d1db9a6444d3adf12700x7ceb23fd6bc0add59e62ac25578270cff1b9f619/70/20''
       = Inl (Error ''call revert exception'')"
    by (simp add: example_provider_def example_pool_def)
  from fetchPairData_lookup_failure [OF pr ch r f example_pool_70 fail] pr ch example_pool_70 fail
  show ?thesis by blast
qed

text \<open>
  Claim C7. When the decimals table has an entry for the chain id and the
  address as the caller wrote it, \<open>fetchTokenData\<close> attempts no contract call
  (the state is left as it was) and, with a provider at hand, builds the token
  with the decimals of that entry; it returns that token when the constructor
  accepts the address and the decimals. A contract call is attempted only when
  the table has no entry.
\<close>

theorem fetchTokenData_cached:
  "(cached_decimals (TOKEN_DECIMALS_CACHE w) c a = Some d \<longrightarrow>
      snd (fetchTokenData ext provider' w c a s n) = w
      \<and> (provider_or_default ext c provider' = Inr prov \<longrightarrow>
           fst (fetchTokenData ext provider' w c a s n)
             = Token_new (validateAndParseAddress ext) c a d s n
           \<and> (0 \<le> d \<and> d \<le> 255 \<and> validateAndParseAddress ext a = Inr parsed \<longrightarrow>
                fst (fetchTokenData ext provider' w c a s n)
                  = Inr \<lparr>decimals = d, symbol = s, name = n, chainId = c, address = parsed\<rparr>)))
   \<and> (calls (snd (fetchTokenData ext provider' w c a s n)) \<noteq> calls w \<longrightarrow>
        cached_decimals (TOKEN_DECIMALS_CACHE w) c a = None)"
proof -
  have same: "snd (fetchTokenData ext provider' w c a s n) = w"
    if "cached_decimals (TOKEN_DECIMALS_CACHE w) c a = Some d'" for d'
    using that by (simp add: fetchTokenData_def split: sum.split)
  have hit: "fst (fetchTokenData ext provider' w c a s n)
               = Token_new (validateAndParseAddress ext) c a d s n"
    if "cached_decimals (TOKEN_DECIMALS_CACHE w) c a = Some d"
      and "provider_or_default ext c provider' = Inr prov"
    using that by (simp add: fetchTokenData_def)
  have new: "Token_new (validateAndParseAddress ext) c a d s n
               = Inr \<lparr>decimals = d, symbol = s, name = n, chainId = c, address = parsed\<rparr>"
    if "0 \<le> d" "d \<le> 255" "validateAndParseAddress ext a = Inr parsed"
    using that by (simp add: Token_new_def Currency_new_def and_then_def)
  have miss: "cached_decimals (TOKEN_DECIMALS_CACHE w) c a = None"
    if "calls (snd (fetchTokenData ext provider' w c a s n)) \<noteq> calls w"
  proof (cases "cached_decimals (TOKEN_DECIMALS_CACHE w) c a")
    case None
    then show ?thesis .
  next
    case (Some d')
    from same [OF Some] that show ?thesis by simp
  qed
  from same hit new miss show ?thesis by simp
qed

theorem fetchTokenData_cached_witness:
  "cached_decimals (TOKEN_DECIMALS_CACHE example_world) MATIC
     ''0xE0B7927c4aF23765Cb51314A0E0521A9645F0E2A'' = Some 9
   \<and> provider_or_default example_externals MATIC None = Inr example_provider
   \<and> fetchTokenData example_externals None example_world MATIC
       ''0xE0B7927c4aF23765Cb51314A0E0521A9645F0E2A'' (Some ''DGD'') None
     = (Inr \<lparr>decimals = 9, symbol = Some ''DGD'', name = None, chainId = MATIC,
             address = ''0xe0b7927c4af23765cb51314a0e0521a9645f0e2a''\<rparr>, example_world)
   \<and> calls (snd (fetchTokenData example_externals None example_world MATIC
       ''0xe0b7927c4af23765cb51314a0e0521a9645f0e2a'' (Some ''DGD'') None)) \<noteq> calls example_world
   \<and> cached_decimals (TOKEN_DECIMALS_CACHE example_world) MATIC
       ''0xe0b7927c4af23765cb51314a0e0521a9645f0e2a'' = None"
proof -
  let ?hit = "fetchTokenData example_externals None example_world MATIC
       ''0xE0B7927c4aF23765Cb51314A0E0521A9645F0E2A'' (Some ''DGD'') None"
  have pr: "provider_or_default example_externals MATIC None = Inr example_provider"
    using example_default by (simp add: example_WMATIC_def)
  have live: "calls (snd (fetchTokenData example_externals None example_world MATIC
       ''0xe0b7927c4af23765cb51314a0e0521a9645f0e2a'' (Some ''DGD'') None)) \<noteq> calls example_world"
    by (simp add: fetchTokenData_def pr cached_decimals_def example_world_def
        TOKEN_DECIMALS_CACHE_initial_def Let_def split: sum.split)
  have range: "(0::int) \<le> 9" "(9::int) \<le> 255" by simp_all
  from fetchTokenData_cached [of example_world MATIC "''0xE0B7927c4aF23765Cb51314A0E0521A9645F0E2A''" 9
        example_externals None "Some ''DGD''" None example_provider
        "''0xe0b7927c4af23765cb51314a0e0521a9645f0e2a''"] cached_DGD validate_DGD range pr
  have "snd ?hit = example_world"
    and "fst ?hit = Inr \<lparr>decimals = 9, symbol = Some ''DGD'', name = None, chainId = MATIC,
             address = ''0xe0b7927c4af23765cb51314a0e0521a9645f0e2a''\<rparr>"
    by blast+
  then have hit: "?hit = (Inr \<lparr>decimals = 9, symbol = Some ''DGD'', name = None, chainId = MATIC,
             address = ''0xe0b7927c4af23765cb51314a0e0521a9645f0e2a''\<rparr>, example_world)"
    by (simp add: prod_eq_iff)
  from fetchTokenData_cached [of example_world MATIC "''0xe0b7927c4af23765cb51314a0e0521a9645f0e2a''" 9
        example_externals None "Some ''DGD''" None example_provider
        "''0xe0b7927c4af23765cb51314a0e0521a9645f0e2a''"] live
  have miss: "cached_decimals (TOKEN_DECIMALS_CACHE example_world) MATIC
       ''0xe0b7927c4af23765cb51314a0e0521a9645f0e2a'' = None"
    by blast
  from cached_DGD pr hit live miss show ?thesis by blast
qed

text \<open>
  Claim C2. For two tokens of one chain with unequal addresses and reserves
  \<open>(reserves0, reserves1)\<close> fetched in both calls, \<open>fetchPairData\<close> gives
  \<open>reserves0\<close> to the token that sorts first and \<open>reserves1\<close> to the other; called
  with the tokens in either order, it builds the pair from the same amount for
  each token.
\<close>

theorem fetchPairData_argument_order:
  assumes "checksummed (validateAndParseAddress ext)"
    and "Token_new (validateAndParseAddress ext) ca aa da sa na = Inr tokenA"
    and "Token_new (validateAndParseAddress ext) cb ab db sb nb = Inr tokenB"
    and "chainId tokenA = chainId tokenB"
    and "address tokenA \<noteq> address tokenB"
    and "provider_or_default ext (chainId tokenA) providerAB = Inr provAB"
    and "provider_or_default ext (chainId tokenB) providerBA = Inr provBA"
    and "Pair_getAddress ext tokenA tokenB (case ratioAB of None \<Rightarrow> 50 | Some r \<Rightarrow> r)
           (case feeAB of None \<Rightarrow> 20 | Some f \<Rightarrow> f) = Inr poolAB"
    and "Pair_getAddress ext tokenB tokenA (case ratioBA of None \<Rightarrow> 50 | Some r \<Rightarrow> r)
           (case feeBA of None \<Rightarrow> 20 | Some f \<Rightarrow> f) = Inr poolBA"
    and "getReserves_reply provAB poolAB = Inr (reserves0, reserves1)"
    and "getReserves_reply provBA poolBA = Inr (reserves0, reserves1)"
  shows "\<exists>forA forB.
           (forA, forB) =
             (if string_less (toLowerCase (address tokenA)) (toLowerCase (address tokenB))
              then (reserves0, reserves1) else (reserves1, reserves0))
         \<and> fst (fetchPairData ext providerAB w tokenA tokenB ratioAB feeAB) =
             and_then (TokenAmount_new ext tokenA forA) (\<lambda>amountA.
             and_then (TokenAmount_new ext tokenB forB) (\<lambda>amountB.
               Pair_new ext amountA amountB))
         \<and> fst (fetchPairData ext providerBA w' tokenB tokenA ratioBA feeBA) =
             and_then (TokenAmount_new ext tokenB forB) (\<lambda>amountB.
             and_then (TokenAmount_new ext tokenA forA) (\<lambda>amountA.
               Pair_new ext amountB amountA))"
proof -
  let ?first = "string_less (toLowerCase (address tokenA)) (toLowerCase (address tokenB))"
  from checksummed_addresses [OF assms(1,2,3)] assms(5)
  have "toLowerCase (address tokenA) \<noteq> toLowerCase (address tokenB)" by simp
  then have swap:
    "string_less (toLowerCase (address tokenB)) (toLowerCase (address tokenA)) = (\<not> ?first)"
    using string_less_total by blast
  have ab: "sortsBefore tokenA tokenB = Inr ?first"
    using assms(4,5) by (simp add: sortsBefore_def invariant_def and_then_def)
  have ba: "sortsBefore tokenB tokenA = Inr (\<not> ?first)"
    using assms(4,5) swap by (simp add: sortsBefore_def invariant_def and_then_def)
  show ?thesis
  proof (cases ?first)
    case True
    with ab ba assms(4,6-11) show ?thesis
      by (simp add: fetchPairData_def invariant_def Let_def and_then_Inr)
  next
    case False
    with ab ba assms(4,6-11) show ?thesis
      by (simp add: fetchPairData_def invariant_def Let_def and_then_Inr)
  qed
qed

theorem fetchPairData_argument_order_witness:
  "checksummed (validateAndParseAddress example_externals)
   \<and> chainId example_WMATIC = chainId example_WETH
   \<and> address example_WMATIC \<noteq> address example_WETH
   \<and> provider_or_default example_externals (chainId example_WMATIC) None = Inr example_provider
   \<and> provider_or_default example_externals (chainId example_WETH) (Some example_provider)
       = Inr example_provider
   \<and> getReserves_reply example_provider example_pool = Inr (1000, 7)
   \<and> fst (fetchPairData example_externals None example_world
            example_WMATIC example_WETH None None)
       = Inr ((example_WMATIC, 1000), (example_WETH, 7))
   \<and> fst (fetchPairData example_externals (Some example_provider) example_world
            example_WETH example_WMATIC None None)
       = Inr ((example_WETH, 7), (example_WMATIC, 1000))"
proof -
  have c: "checksummed (validateAndParseAddress example_externals)"
    by (simp add: example_validate checksummed_lowercase_validate)
  have nA: "Token_new (validateAndParseAddress example_externals) MATIC
              ''0x0d500b1d8e8ef31e21c99d1db9a6444d3adf1270'' 18 (Some ''WMATIC'')
              (Some ''Wrapped MATIC'') = Inr example_WMATIC"
    by (simp add: example_validate new_WMATIC)
  have nB: "Token_new (validateAndParseAddress example_externals) MATIC
              ''0x7ceB23fD6bC0adD59E62ac25578270cFf1b9f619'' 18 (Some ''WETH'')
              (Some ''Wrapped ETH'') = Inr example_WETH"
    by (simp add: example_validate new_WETH)
  have ch: "chainId example_WMATIC = chainId example_WETH"
    by (simp add: example_WMATIC_def example_WETH_def)
  have ad: "address example_WMATIC \<noteq> address example_WETH"
    by (simp add: example_WMATIC_def example_WETH_def)
  note prA = example_default
  have prB: "provider_or_default example_externals (chainId example_WETH) (Some example_provider)
               = Inr example_provider"
    by (simp add: provider_or_default_def)
  have pAB: "Pair_getAddress example_externals example_WMATIC example_WETH
               (case None of None \<Rightarrow> 50 | Some r \<Rightarrow> r) (case None of None \<Rightarrow> 20 | Some f \<Rightarrow> f)
             = Inr example_pool"
    by (simp add: example_pool_50)
  have pBA: "Pair_getAddress example_externals example_WETH example_WMATIC
               (case None of None \<Rightarrow> 50 | Some r \<Rightarrow> r) (case None of None \<Rightarrow> 20 | Some f \<Rightarrow> f)
             = Inr example_pool"
    by (simp add: example_pool_50)
  have rs: "getReserves_reply example_provider example_pool = Inr (1000, 7)"
    by (simp add: example_provider_def)
  from fetchPairData_argument_order
         [where w = example_world and w' = example_world,
          OF c nA nB ch ad prA prB pAB pBA rs rs]
  have "fst (fetchPairData example_externals None example_world
               example_WMATIC example_WETH None None)
          = Inr ((example_WMATIC, 1000), (example_WETH, 7))
        \<and> fst (fetchPairData example_externals (Some example_provider) example_world
               example_WETH example_WMATIC None None)
          = Inr ((example_WETH, 7), (example_WMATIC, 1000))"
    using example_first by (auto simp: example_externals_def and_then_Inr)
  with c ch ad prA prB rs show ?thesis by blast
qed


section \<open>The token constants\<close>

text \<open>
  Claim C10. In the tables \<open>WMATIC\<close>, \<open>WETH\<close> and \<open>BNB\<close> every token has the chain
  id of the key it is stored under; the token stored under \<open>ChainId.BSC\<close> in
  \<open>HOPE\<close> is constructed with \<open>ChainId.MATIC\<close>, which is not its key.
\<close>

theorem token_tables_chainId:
  "(WMATIC vp = Inr wmatic \<longrightarrow> (\<forall>k t. wmatic k = Some t \<longrightarrow> chainId t = k))
   \<and> (WETH vp = Inr weth \<longrightarrow> (\<forall>k t. weth k = Some t \<longrightarrow> chainId t = k))
   \<and> (BNB vp = Inr bnb \<longrightarrow> (\<forall>k t. bnb k = Some t \<longrightarrow> chainId t = k))
   \<and> (HOPE vp = Inr hope \<longrightarrow>
        (\<exists>t. hope BSC = Some t \<and> chainId t = MATIC \<and> chainId t \<noteq> BSC))"
proof -
  have "\<exists>t. hope BSC = Some t \<and> chainId t = MATIC \<and> chainId t \<noteq> BSC" if "HOPE vp = Inr hope"
    using HOPE_BSC [OF that] by auto
  then show ?thesis
    using WMATIC_keys WETH_keys BNB_keys by blast
qed

theorem token_tables_chainId_witness:
  "WMATIC lowercase_validate = Inr [MATIC \<mapsto> example_WMATIC, MATICTESTNET \<mapsto> example_WMATIC_testnet]
   \<and> chainId example_WMATIC = MATIC
   \<and> chainId example_WMATIC_testnet = MATICTESTNET
   \<and> WETH lowercase_validate = Inr [MATIC \<mapsto> example_WETH]
   \<and> chainId example_WETH = MATIC
   \<and> BNB lowercase_validate = Inr [BSC \<mapsto> example_WBNB]
   \<and> chainId example_WBNB = BSC
   \<and> HOPE lowercase_validate = Inr [MATIC \<mapsto> example_HOPE, BSC \<mapsto> example_HOPE_P]
   \<and> chainId example_HOPE_P = MATIC"
proof -
  have wm: "WMATIC lowercase_validate
              = Inr [MATIC \<mapsto> example_WMATIC, MATICTESTNET \<mapsto> example_WMATIC_testnet]"
    by (simp add: WMATIC_def new_WMATIC new_WMATIC_testnet and_then_Inr)
  have we: "WETH lowercase_validate = Inr [MATIC \<mapsto> example_WETH]"
    by (simp add: WETH_def new_WETH and_then_Inr)
  have bn: "BNB lowercase_validate = Inr [BSC \<mapsto> example_WBNB]"
    by (simp add: BNB_def new_WBNB and_then_Inr)
  have ho: "HOPE lowercase_validate = Inr [MATIC \<mapsto> example_HOPE, BSC \<mapsto> example_HOPE_P]"
    by (simp add: HOPE_def new_HOPE new_HOPE_P and_then_Inr)
  note t = token_tables_chainId [of lowercase_validate
      "[MATIC \<mapsto> example_WMATIC, MATICTESTNET \<mapsto> example_WMATIC_testnet]"
      "[MATIC \<mapsto> example_WETH]" "[BSC \<mapsto> example_WBNB]"
      "[MATIC \<mapsto> example_HOPE, BSC \<mapsto> example_HOPE_P]"]
  from t wm have "\<forall>k t. [MATIC \<mapsto> example_WMATIC, MATICTESTNET \<mapsto> example_WMATIC_testnet] k = Some t
                    \<longrightarrow> chainId t = k" by blast
  then have 1: "chainId example_WMATIC = MATIC" "chainId example_WMATIC_testnet = MATICTESTNET"
    by simp_all
  from t we have "\<forall>k t. [MATIC \<mapsto> example_WETH] k = Some t \<longrightarrow> chainId t = k" by blast
  then have 2: "chainId example_WETH = MATIC" by simp
  from t bn have "\<forall>k t. [BSC \<mapsto> example_WBNB] k = Some t \<longrightarrow> chainId t = k" by blast
  then have 3: "chainId example_WBNB = BSC" by simp
  from t ho have "\<exists>t. [MATIC \<mapsto> example_HOPE, BSC \<mapsto> example_HOPE_P] BSC = Some t
                    \<and> chainId t = MATIC \<and> chainId t \<noteq> BSC" by blast
  then have 4: "chainId example_HOPE_P = MATIC" by simp
  from wm we bn ho 1 2 3 4 show ?thesis by blast
qed

end
